theory Spec2Isabelle
  imports Main
begin

section \<open>JavaScript values\<close>

text \<open>
  The payloads that travel through the helper: \<open>requestData\<close>, \<open>response.data\<close> and the
  results of the schemas. An object is the list of its own properties; the first binding
  of a key is the property's value. Numbers are integers: nothing below computes with them.
\<close>

datatype jsvalue =
    JUndefined
  | JNull
  | JBool bool
  | JNum int
  | JStr string
  | JArr "jsvalue list"
  | JObj "(string \<times> jsvalue) list"

section \<open>zod: schemas, issues and the two entry points the helper calls\<close>

datatype ZodIssueCode = invalid_type | too_small

datatype ZodIssue = ZodIssue (code: ZodIssueCode) (path: "string list")

datatype ZodError = ZodError (issues: "ZodIssue list")

text \<open>
  \<open>z.ZodType<T>\<close>: a schema is what its \<open>_parse\<close> does to a value, the list of issues or
  the output value. The helper receives its two schemas from the caller, so they are
  arbitrary here.
\<close>

datatype ZodType = ZodType (run: "jsvalue \<Rightarrow> ZodIssue list + jsvalue")

datatype SafeParseReturnType = SafeParseSuccess jsvalue | SafeParseError ZodError

fun success :: "SafeParseReturnType \<Rightarrow> bool" where
  "success (SafeParseSuccess _) = True"
| "success (SafeParseError _) = False"

text \<open>\<open>schema.parse(v)\<close>: the output, or a thrown \<open>ZodError\<close> (\<open>Inl\<close>).\<close>

definition parse :: "ZodType \<Rightarrow> jsvalue \<Rightarrow> ZodError + jsvalue" where
  "parse schema v = (case run schema v of Inl iss \<Rightarrow> Inl (ZodError iss) | Inr x \<Rightarrow> Inr x)"

text \<open>\<open>schema.safeParseAsync(v)\<close>: never throws, the promise resolves with the result object.\<close>

definition safeParseAsync :: "ZodType \<Rightarrow> jsvalue \<Rightarrow> SafeParseReturnType" where
  "safeParseAsync schema v =
     (case run schema v of Inl iss \<Rightarrow> SafeParseError (ZodError iss) | Inr x \<Rightarrow> SafeParseSuccess x)"

subsection \<open>The schemas of the article\<close>

text \<open>
  \<open>z.void()\<close>; \<open>z.string()\<close> followed by one \<open>.min(m)\<close> for each \<open>m\<close> of the list, so that
  \<open>z.string().min(1)\<close> is \<open>ZodString [1]\<close>; and \<open>z.object({...})\<close> in zod's default mode,
  which strips the keys that the shape does not name. A key of the shape is written to the
  output when the input has it or when its parsed value is not \<open>undefined\<close>. The length of a
  string counts its characters.
\<close>

datatype zod =
    ZodVoid
  | ZodString "nat list"
  | ZodObject "(string \<times> zod) list"

fun zod_parse :: "zod \<Rightarrow> string list \<Rightarrow> jsvalue \<Rightarrow> ZodIssue list + jsvalue"
  and parse_shape :: "(string \<times> zod) list \<Rightarrow> string list \<Rightarrow> (string \<times> jsvalue) list
                        \<Rightarrow> ZodIssue list \<times> (string \<times> jsvalue) list"
where
  "zod_parse ZodVoid p v =
     (if v = JUndefined then Inr v else Inl [ZodIssue invalid_type p])"
| "zod_parse (ZodString mins) p v =
     (case v of
        JStr s \<Rightarrow>
          (case filter (\<lambda>m. length s < m) mins of
             [] \<Rightarrow> Inr v
           | bad \<Rightarrow> Inl (map (\<lambda>m. ZodIssue too_small p) bad))
      | _ \<Rightarrow> Inl [ZodIssue invalid_type p])"
| "zod_parse (ZodObject shape) p v =
     (case v of
        JObj props \<Rightarrow>
          (case parse_shape shape p props of
             ([], out) \<Rightarrow> Inr (JObj out)
           | (iss, out) \<Rightarrow> Inl iss)
      | _ \<Rightarrow> Inl [ZodIssue invalid_type p])"
| "parse_shape [] p props = ([], [])"
| "parse_shape ((k, s) # shape) p props =
     (let value = (case map_of props k of Some x \<Rightarrow> x | None \<Rightarrow> JUndefined);
          rest = parse_shape shape p props
      in case zod_parse s (p @ [k]) value of
           Inl iss \<Rightarrow> (iss @ fst rest, snd rest)
         | Inr x \<Rightarrow>
             (fst rest,
              if x = JUndefined
              then (if map_of props k = None then snd rest else (k, x) # snd rest)
              else (k, x) # snd rest))"

text \<open>The schema as the helper gets it: parsing starts at the empty path.\<close>

definition zod_schema :: "zod \<Rightarrow> ZodType" where
  "zod_schema z = ZodType (zod_parse z [])"

text \<open>\<open>z.string().transform(f)\<close> for an \<open>f\<close> from strings to strings.\<close>

definition z_string_transform :: "(string \<Rightarrow> string) \<Rightarrow> ZodType" where
  "z_string_transform f =
     ZodType (\<lambda>v. case v of JStr s \<Rightarrow> Inr (JStr (f s)) | _ \<Rightarrow> Inl [ZodIssue invalid_type []])"

section \<open>The process and the transport\<close>

datatype HTTPMethod = GET | POST

text \<open>The two variables of \<open>process.env\<close> that the helper reads; \<open>None\<close> is an unset one.\<close>

record ProcessEnv =
  API_URL :: "string option"
  NODE_ENV :: "string option"

text \<open>
  Modelled from the spec: \<open>EnvName.PRODUCTION\<close> of \<open>utils/env\<close>, a module that is not among
  the sources. The spec names the two runtime modes "development" and "production".
\<close>

definition EnvName_PRODUCTION :: string where
  "EnvName_PRODUCTION = ''production''"

text \<open>
  The object literal handed to \<open>axios\<close>. The source writes the payload under a computed
  key, \<open>"params"\<close> or \<open>"data"\<close>: the key that is not written is \<open>None\<close>. The fields
  \<open>request_method\<close> and \<open>request_data\<close> are the keys \<open>method\<close> and \<open>data\<close>.
\<close>

record AxiosRequestConfig =
  baseURL :: "string option"
  request_method :: HTTPMethod
  url :: string
  params :: "jsvalue option"
  request_data :: "jsvalue option"

record AxiosResponse =
  status :: nat
  data :: jsvalue

datatype AxiosError = RequestFailedWithStatus nat | NetworkError | TimeoutExceeded

text \<open>What comes back for one request: a reply with a status and a body, nothing, or a timeout.\<close>

datatype exchange = Reply nat jsvalue | NoReply | TimedOut

text \<open>
  The network, with whatever else runs in the process while a call is awaited: from the
  request and \<open>process.env\<close> at the time of the call to what comes back and
  \<open>process.env\<close> at the time the awaiting code resumes.
\<close>

type_synonym network = "AxiosRequestConfig \<Rightarrow> ProcessEnv \<Rightarrow> exchange \<times> ProcessEnv"

text \<open>
  The state the helper can read or change: \<open>process.env\<close>, the requests handed to the
  transport so far, and what the error-reporting service has received so far.
\<close>

record world =
  process_env :: ProcessEnv
  requests :: "AxiosRequestConfig list"
  reported :: "ZodError list"

text \<open>
  axios with its default \<open>validateStatus\<close> (the helper sets none): the promise resolves for
  a status from 200 to 299 and rejects otherwise.
\<close>

fun settle :: "exchange \<Rightarrow> AxiosError + AxiosResponse" where
  "settle (Reply s body) =
     (if 200 \<le> s \<and> s < 300 then Inr \<lparr>status = s, data = body\<rparr>
      else Inl (RequestFailedWithStatus s))"
| "settle NoReply = Inl NetworkError"
| "settle TimedOut = Inl TimeoutExceeded"

definition axios :: "network \<Rightarrow> AxiosRequestConfig \<Rightarrow> world
                       \<Rightarrow> (AxiosError + AxiosResponse) \<times> world" where
  "axios net config w =
     (case net config (process_env w) of
        (x, env') \<Rightarrow> (settle x, w\<lparr>process_env := env', requests := requests w @ [config]\<rparr>))"

section \<open>The helper\<close>

datatype error = Zod ZodError | Axios AxiosError

text \<open>
  How a promise settles, and what a call of the built function does: it throws to its
  caller, or it returns a promise, given here by how that promise settles.
\<close>

datatype 'a promise = Resolved 'a | Rejected error

datatype outcome = Throws error | Returns "jsvalue promise"

text \<open>The argument of \<open>api\<close>: the four properties that it destructures.\<close>

record ApiDefinition =
  "method" :: HTTPMethod
  path :: string
  requestSchema :: ZodType
  responseSchema :: ZodType

text \<open>The object literal that \<open>apiCall\<close> hands to \<open>axios\<close>.\<close>

definition requestConfig :: "ApiDefinition \<Rightarrow> jsvalue \<Rightarrow> ProcessEnv \<Rightarrow> AxiosRequestConfig" where
  "requestConfig d requestData env =
     \<lparr>baseURL = API_URL env,
      request_method = method d,
      url = path d,
      params = (if method d = GET then Some requestData else None),
      request_data = (if method d = GET then None else Some requestData)\<rparr>"

text \<open>
  \<open>apiCall\<close>, the async function inside the built function. It runs up to the call of
  \<open>axios\<close> at once, so \<open>process.env.API_URL\<close> is read from the state at the invocation;
  the rest runs when the awaited promise has settled, on the state of that moment. The
  callback of \<open>safeParseAsync(...).then\<close> has an empty body in the source.
\<close>

definition apiCall :: "network \<Rightarrow> ApiDefinition \<Rightarrow> jsvalue \<Rightarrow> world
                         \<Rightarrow> jsvalue promise \<times> world" where
  "apiCall net d requestData w =
     (case axios net (requestConfig d requestData (process_env w)) w of
        (Inl e, w1) \<Rightarrow> (Rejected (Axios e), w1)
      | (Inr response, w1) \<Rightarrow>
          if NODE_ENV (process_env w1) = Some EnvName_PRODUCTION
          then (let result = safeParseAsync (responseSchema d) (data response);
                    w2 = (if \<not> success result then w1 else w1)
                in (Resolved (data response), w2))
          else (case parse (responseSchema d) (data response) of
                  Inl e \<Rightarrow> (Rejected (Zod e), w1)
                | Inr v \<Rightarrow> (Resolved v, w1)))"

text \<open>The function that \<open>api\<close> returns.\<close>

definition invocation :: "network \<Rightarrow> ApiDefinition \<Rightarrow> jsvalue \<Rightarrow> world \<Rightarrow> outcome \<times> world" where
  "invocation net d requestData w =
     (case parse (requestSchema d) requestData of
        Inl e \<Rightarrow> (Throws (Zod e), w)
      | Inr _ \<Rightarrow> (case apiCall net d requestData w of (p, w') \<Rightarrow> (Returns p, w')))"

text \<open>\<open>api\<close> itself: its body is the \<open>return\<close> of that function.\<close>

definition api :: "network \<Rightarrow> ApiDefinition \<Rightarrow> world
                     \<Rightarrow> (error + (jsvalue \<Rightarrow> world \<Rightarrow> outcome \<times> world)) \<times> world" where
  "api net d w = (Inr (invocation net d), w)"

subsection \<open>The query function of the article\<close>

text \<open>
  The two schemas and the argument of \<open>api\<close> in the source's \<open>getRepository\<close>; the query
  function itself is what \<open>api\<close> builds from it.
\<close>

definition GetRepositoryRequest :: ZodType where
  "GetRepositoryRequest = zod_schema ZodVoid"

definition GetRepositoryResponse :: ZodType where
  "GetRepositoryResponse = zod_schema (ZodObject [(''name'', ZodString [1])])"

definition getRepository :: ApiDefinition where
  "getRepository =
     \<lparr>method = GET, path = ''/repository'',
      requestSchema = GetRepositoryRequest, responseSchema = GetRepositoryResponse\<rparr>"

subsection \<open>Concrete schemas, servers and states\<close>


text \<open>\<open>z.string().transform((s) => s + "!")\<close>, and a definition that posts with it both ways.\<close>

definition append_bang :: "string \<Rightarrow> string" where
  "append_bang s = s @ ''!''"

definition exclaim :: ZodType where
  "exclaim = z_string_transform append_bang"

definition postExclaim :: ApiDefinition where
  "postExclaim =
     \<lparr>method = POST, path = ''/exclaim'', requestSchema = exclaim, responseSchema = exclaim\<rparr>"



text \<open>A server that answers every request with the same status and body.\<close>

definition answering :: "nat \<Rightarrow> jsvalue \<Rightarrow> network" where
  "answering s body = (\<lambda>config env. (Reply s body, env))"

text \<open>The same server, while a deployment sets \<open>NODE_ENV\<close> to production during the round trip.\<close>

definition answering_while_going_live :: "nat \<Rightarrow> jsvalue \<Rightarrow> network" where
  "answering_while_going_live s body =
     (\<lambda>config env. (Reply s body, env\<lparr>NODE_ENV := Some EnvName_PRODUCTION\<rparr>))"

definition development :: world where
  "development =
     \<lparr>process_env = \<lparr>API_URL = Some ''https://api.example.org'', NODE_ENV = Some ''development''\<rparr>,
      requests = [], reported = []\<rparr>"

definition production :: world where
  "production =
     \<lparr>process_env = \<lparr>API_URL = Some ''https://api.example.org'', NODE_ENV = Some EnvName_PRODUCTION\<rparr>,
      requests = [], reported = []\<rparr>"

section \<open>Facts about the schemas\<close>








section \<open>What a call with a valid request does\<close>

lemma invocation_valid:
  assumes "parse (requestSchema d) requestData = Inr v"
    and "net (requestConfig d requestData (process_env w)) (process_env w) = (x, env')"
  shows "invocation net d requestData w =
     (case settle x of
        Inl e \<Rightarrow> Returns (Rejected (Axios e))
      | Inr response \<Rightarrow>
          if NODE_ENV env' = Some EnvName_PRODUCTION then Returns (Resolved (data response))
          else (case parse (responseSchema d) (data response) of
                  Inl e \<Rightarrow> Returns (Rejected (Zod e))
                | Inr v' \<Rightarrow> Returns (Resolved v')),
      w\<lparr>process_env := env',
        requests := requests w @ [requestConfig d requestData (process_env w)]\<rparr>)"
  using assms
  by (simp add: invocation_def apiCall_def axios_def Let_def split: sum.splits)

lemmas concrete_defs =
  getRepository_def GetRepositoryRequest_def GetRepositoryResponse_def postExclaim_def
  exclaim_def append_bang_def zod_schema_def z_string_transform_def
  parse_def safeParseAsync_def requestConfig_def answering_def answering_while_going_live_def
  development_def production_def EnvName_PRODUCTION_def

section \<open>Construction\<close>

text \<open>
  C8. Building the callable is pure: \<open>api\<close> returns the function, raises nothing, issues
  no request, sends no report and leaves \<open>process.env\<close> alone, for every definition and in
  every state; whatever happens, happens in calls of the returned function.
\<close>

theorem api_construction_pure:
  "api net d w = (Inr (invocation net d), w)"
  by (simp add: api_def)

section \<open>Request validation\<close>

text \<open>
  C1. When \<open>requestData\<close> violates the request schema, the call of the built function
  throws the schema's error to its caller (no promise is returned) and the state is
  untouched: the list of requests handed to the transport is what it was.
\<close>

theorem invalid_request_throws_before_transport:
  "parse (requestSchema d) requestData = Inl e \<Longrightarrow>
   invocation net d requestData w = (Throws (Zod e), w) \<and>
   requests (snd (invocation net d requestData w)) = requests w"
  by (simp add: invocation_def)

theorem invalid_request_throws_before_transport_witness:
  "parse (requestSchema getRepository) (JStr ''x'') = Inl (ZodError [ZodIssue invalid_type []]) \<and>
   invocation (answering 200 JNull) getRepository (JStr ''x'') development =
     (Throws (Zod (ZodError [ZodIssue invalid_type []])), development) \<and>
   requests (snd (invocation (answering 200 JNull) getRepository (JStr ''x'') development)) =
     requests development"
proof -
  have h: "parse (requestSchema getRepository) (JStr ''x'') = Inl (ZodError [ZodIssue invalid_type []])"
    by (simp add: concrete_defs)
  show ?thesis
    using h invalid_request_throws_before_transport [OF h, of "answering 200 JNull" development]
    by simp
qed

section \<open>The transport call\<close>

text \<open>
  C4. When \<open>requestData\<close> conforms to the request schema, one call of the built function
  hands exactly one request to the transport, whatever comes back: the request log grows
  by one entry. The payload is in that entry under \<open>params\<close> (the query parameters) when
  the method is GET, and under \<open>data\<close> (the request body) for the other method.
\<close>

theorem valid_request_one_transport_call:
  "parse (requestSchema d) requestData = Inr v \<Longrightarrow>
   requests (snd (invocation net d requestData w)) =
     requests w @
       [\<lparr>baseURL = API_URL (process_env w), request_method = method d, url = path d,
         params = (if method d = GET then Some requestData else None),
         request_data = (if method d = GET then None else Some requestData)\<rparr>]"
  using invocation_valid [of d requestData v net w
      "fst (net (requestConfig d requestData (process_env w)) (process_env w))"
      "snd (net (requestConfig d requestData (process_env w)) (process_env w))"]
  by (simp add: requestConfig_def)

theorem valid_request_one_transport_call_witness:
  "parse (requestSchema postExclaim) (JStr ''hi'') = Inr (JStr ''hi!'') \<and>
   requests (snd (invocation (answering 200 (JStr ''ok'')) postExclaim (JStr ''hi'') development)) =
     [\<lparr>baseURL = Some ''https://api.example.org'', request_method = POST, url = ''/exclaim'',
       params = None, request_data = Some (JStr ''hi'')\<rparr>] \<and>
   parse (requestSchema getRepository) JUndefined = Inr JUndefined \<and>
   requests (snd (invocation (answering 200 JNull) getRepository JUndefined development)) =
     [\<lparr>baseURL = Some ''https://api.example.org'', request_method = GET, url = ''/repository'',
       params = Some JUndefined, request_data = None\<rparr>]"
proof -
  have h1: "parse (requestSchema postExclaim) (JStr ''hi'') = Inr (JStr ''hi!'')"
    by (simp add: concrete_defs)
  have h2: "parse (requestSchema getRepository) JUndefined = Inr JUndefined"
    by (simp add: concrete_defs)
  show ?thesis
    using h1 h2
      valid_request_one_transport_call [where d = postExclaim and requestData = "JStr ''hi''"
        and v = "JStr ''hi!''" and net = "answering 200 (JStr ''ok'')" and w = development]
      valid_request_one_transport_call [where d = getRepository and requestData = JUndefined
        and v = JUndefined and net = "answering 200 JNull" and w = development]
    by (simp add: postExclaim_def getRepository_def development_def)
qed

text \<open>
  C9. What the transport receives is \<open>requestData\<close> as the caller passed it. The value
  \<open>v\<close> that the request schema produced appears nowhere in the request: the statement holds
  for every \<open>v\<close>, also for one that differs from \<open>requestData\<close>.
\<close>

theorem transport_receives_original_request_data:
  "parse (requestSchema d) requestData = Inr v \<Longrightarrow>
   \<exists>config. requests (snd (invocation net d requestData w)) = requests w @ [config] \<and>
     request_method config = method d \<and>
     (if method d = GET then params config else request_data config) = Some requestData"
  using invocation_valid [of d requestData v net w
      "fst (net (requestConfig d requestData (process_env w)) (process_env w))"
      "snd (net (requestConfig d requestData (process_env w)) (process_env w))"]
  by (simp add: requestConfig_def)

text \<open>The request schema turns \<open>"hi"\<close> into \<open>"hi!"\<close>, and \<open>"hi"\<close> is what is posted.\<close>

theorem transport_receives_original_request_data_witness:
  "parse (requestSchema postExclaim) (JStr ''hi'') = Inr (JStr ''hi!'') \<and>
   (\<exists>config. requests (snd (invocation (answering 200 (JStr ''ok'')) postExclaim (JStr ''hi'')
                               development)) = requests development @ [config] \<and>
      request_method config = POST \<and> request_data config = Some (JStr ''hi''))"
proof -
  have h: "parse (requestSchema postExclaim) (JStr ''hi'') = Inr (JStr ''hi!'')"
    by (simp add: concrete_defs)
  have m: "method postExclaim = POST"
    by (simp add: postExclaim_def)
  show ?thesis
    using h m
      transport_receives_original_request_data [where d = postExclaim
        and requestData = "JStr ''hi''" and v = "JStr ''hi!''"
        and net = "answering 200 (JStr ''ok'')" and w = development]
    by simp
qed

text \<open>
  C6. When the transport call fails (no reply, a timeout, or a reply whose status is
  outside 200..299), the promise that the call returned is rejected with the transport's
  error, and the request log has grown by the one request: nothing is sent again.
\<close>

theorem transport_failure_rejects_without_retry:
  assumes "parse (requestSchema d) requestData = Inr v"
    and "net (requestConfig d requestData (process_env w)) (process_env w) = (x, env')"
    and "x = NoReply \<or> x = TimedOut \<or> (\<exists>s body. x = Reply s body \<and> (s < 200 \<or> 300 \<le> s))"
  shows "\<exists>e. settle x = Inl e \<and>
           fst (invocation net d requestData w) = Returns (Rejected (Axios e)) \<and>
           requests (snd (invocation net d requestData w)) =
             requests w @ [requestConfig d requestData (process_env w)]"
  using assms invocation_valid [of d requestData v net w x env'] by auto

theorem transport_failure_rejects_without_retry_witness:
  "parse (requestSchema getRepository) JUndefined = Inr JUndefined \<and>
   answering 503 JNull
     (requestConfig getRepository JUndefined (process_env production)) (process_env production) =
     (Reply 503 JNull, process_env production) \<and>
   fst (invocation (answering 503 JNull) getRepository JUndefined production) =
     Returns (Rejected (Axios (RequestFailedWithStatus 503))) \<and>
   requests (snd (invocation (answering 503 JNull) getRepository JUndefined production)) =
     [requestConfig getRepository JUndefined (process_env production)]"
proof -
  have h1: "parse (requestSchema getRepository) JUndefined = Inr JUndefined"
    by (simp add: concrete_defs)
  have h2: "answering 503 JNull
     (requestConfig getRepository JUndefined (process_env production)) (process_env production) =
     (Reply 503 JNull, process_env production)"
    by (simp add: answering_def)
  have h3: "requests production = []"
    by (simp add: production_def)
  show ?thesis
    using h1 h2 h3
      transport_failure_rejects_without_retry [where d = getRepository and requestData = JUndefined
        and v = JUndefined and net = "answering 503 JNull" and w = production
        and x = "Reply 503 JNull" and env' = "process_env production"]
    by simp
qed

section \<open>Response validation outside production\<close>

text \<open>
  C3. Outside production, when the transport answers with a body that violates the
  response schema, the promise is rejected with the schema's error: the call resolves no
  value.
\<close>

theorem strict_invalid_response_rejects:
  assumes "parse (requestSchema d) requestData = Inr v"
    and "net (requestConfig d requestData (process_env w)) (process_env w) = (Reply s body, env')"
    and "200 \<le> s" and "s < 300"
    and "NODE_ENV env' \<noteq> Some EnvName_PRODUCTION"
    and "parse (responseSchema d) body = Inl e"
  shows "fst (invocation net d requestData w) = Returns (Rejected (Zod e))"
  using assms invocation_valid [of d requestData v net w "Reply s body" env'] by simp

theorem strict_invalid_response_rejects_witness:
  "parse (requestSchema getRepository) JUndefined = Inr JUndefined \<and>
   answering 200 (JObj [(''name'', JNum 7)])
     (requestConfig getRepository JUndefined (process_env development)) (process_env development) =
     (Reply 200 (JObj [(''name'', JNum 7)]), process_env development) \<and>
   NODE_ENV (process_env development) \<noteq> Some EnvName_PRODUCTION \<and>
   parse (responseSchema getRepository) (JObj [(''name'', JNum 7)]) =
     Inl (ZodError [ZodIssue invalid_type [''name'']]) \<and>
   fst (invocation (answering 200 (JObj [(''name'', JNum 7)])) getRepository JUndefined development) =
     Returns (Rejected (Zod (ZodError [ZodIssue invalid_type [''name'']])))"
proof -
  have h1: "parse (requestSchema getRepository) JUndefined = Inr JUndefined"
    by (simp add: concrete_defs)
  have h2: "answering 200 (JObj [(''name'', JNum 7)])
     (requestConfig getRepository JUndefined (process_env development)) (process_env development) =
     (Reply 200 (JObj [(''name'', JNum 7)]), process_env development)"
    by (simp add: answering_def)
  have h3: "NODE_ENV (process_env development) \<noteq> Some EnvName_PRODUCTION"
    by (simp add: development_def EnvName_PRODUCTION_def)
  have h4: "parse (responseSchema getRepository) (JObj [(''name'', JNum 7)]) =
     Inl (ZodError [ZodIssue invalid_type [''name'']])"
    by (simp add: concrete_defs)
  show ?thesis
    using h1 h2 h3 h4
      strict_invalid_response_rejects [where d = getRepository and requestData = JUndefined
        and net = "answering 200 (JObj [(''name'', JNum 7)])" and w = development and s = 200
        and body = "JObj [(''name'', JNum 7)]" and env' = "process_env development"
        and v = JUndefined and e = "ZodError [ZodIssue invalid_type [''name'']]"]
    by simp
qed




text \<open>
  C7. \<open>getRepository\<close> outside production, the server answering 200: the body
  \<open>{"name": ""}\<close> rejects the promise with the schema's error (the name is too small), and
  the body \<open>{"name": "octo"}\<close> resolves it with \<open>{name: "octo"}\<close>.
\<close>

theorem getRepository_strict_scenarios:
  "NODE_ENV (process_env w) \<noteq> Some EnvName_PRODUCTION \<Longrightarrow>
   fst (invocation (answering 200 (JObj [(''name'', JStr '''')])) getRepository JUndefined w) =
     Returns (Rejected (Zod (ZodError [ZodIssue too_small [''name'']]))) \<and>
   fst (invocation (answering 200 (JObj [(''name'', JStr ''octo'')])) getRepository JUndefined w) =
     Returns (Resolved (JObj [(''name'', JStr ''octo'')]))"
  by (simp add: getRepository_def GetRepositoryRequest_def GetRepositoryResponse_def
      zod_schema_def parse_def requestConfig_def answering_def
      invocation_def apiCall_def axios_def)

theorem getRepository_strict_scenarios_witness:
  "NODE_ENV (process_env development) \<noteq> Some EnvName_PRODUCTION \<and>
   fst (invocation (answering 200 (JObj [(''name'', JStr '''')])) getRepository JUndefined development) =
     Returns (Rejected (Zod (ZodError [ZodIssue too_small [''name'']]))) \<and>
   fst (invocation (answering 200 (JObj [(''name'', JStr ''octo'')])) getRepository JUndefined development) =
     Returns (Resolved (JObj [(''name'', JStr ''octo'')]))"
proof -
  have h: "NODE_ENV (process_env development) \<noteq> Some EnvName_PRODUCTION"
    by (simp add: development_def EnvName_PRODUCTION_def)
  show ?thesis
    using h getRepository_strict_scenarios [of development] by simp
qed

section \<open>Response validation in production\<close>

text \<open>
  In production the promise resolves with the body as it came, whether it conforms or not,
  and no call of the built function changes what the error-reporting service has received.
\<close>

lemma lenient_resolves_with_body:
  assumes "parse (requestSchema d) requestData = Inr v"
    and "net (requestConfig d requestData (process_env w)) (process_env w) = (Reply s body, env')"
    and "200 \<le> s" and "s < 300"
    and "NODE_ENV env' = Some EnvName_PRODUCTION"
  shows "fst (invocation net d requestData w) = Returns (Resolved body)"
  using assms invocation_valid [of d requestData v net w "Reply s body" env'] by simp

lemma invocation_never_reports:
  "reported (snd (invocation net d requestData w)) = reported w"
  by (auto simp: invocation_def apiCall_def axios_def Let_def split: sum.splits prod.splits)

text \<open>
  C2, at \<open>getRepository\<close> in production with the body \<open>{"name": ""}\<close>: the background
  validation fails, the promise resolves with the body, and the error-reporting service has
  received nothing. The claim asks for exactly one report there.
\<close>

theorem lenient_mismatch_is_not_reported:
  "success (safeParseAsync (responseSchema getRepository) (JObj [(''name'', JStr '''')])) = False \<and>
   fst (invocation (answering 200 (JObj [(''name'', JStr '''')])) getRepository JUndefined production) =
     Returns (Resolved (JObj [(''name'', JStr '''')])) \<and>
   reported (snd (invocation (answering 200 (JObj [(''name'', JStr '''')])) getRepository JUndefined
                    production)) = []"
  by (simp add: concrete_defs invocation_def apiCall_def axios_def)

section \<open>When the configuration is read\<close>

text \<open>
  C10. The built function is the same in whatever state \<open>w0\<close> it is built, so it holds no
  configuration. The base URL of the request is \<open>API_URL\<close> of the state \<open>w\<close> in which the
  function is called. The policy for the response follows \<open>NODE_ENV\<close> of \<open>env'\<close>, the
  environment when the response has arrived, and not the one at the time of the call.
\<close>

theorem configuration_read_at_time_of_use:
  assumes "parse (requestSchema d) requestData = Inr v"
    and "net (requestConfig d requestData (process_env w)) (process_env w) = (Reply s body, env')"
    and "200 \<le> s" and "s < 300"
  shows "fst (api net d w0) = Inr (invocation net d) \<and>
         map baseURL (requests (snd (invocation net d requestData w))) =
           map baseURL (requests w) @ [API_URL (process_env w)] \<and>
         fst (invocation net d requestData w) =
           Returns (if NODE_ENV env' = Some EnvName_PRODUCTION then Resolved body
                    else (case parse (responseSchema d) body of
                            Inl e \<Rightarrow> Rejected (Zod e)
                          | Inr v' \<Rightarrow> Resolved v'))"
  using assms invocation_valid [of d requestData v net w "Reply s body" env']
  by (simp add: api_def requestConfig_def split: sum.splits)

text \<open>
  Called in development while the process goes to production during the round trip: the
  non-conforming body is resolved, as in production.
\<close>

theorem configuration_read_at_time_of_use_witness:
  "parse (requestSchema getRepository) JUndefined = Inr JUndefined \<and>
   answering_while_going_live 200 (JObj [(''name'', JStr '''')])
     (requestConfig getRepository JUndefined (process_env development)) (process_env development) =
     (Reply 200 (JObj [(''name'', JStr '''')]),
      \<lparr>API_URL = Some ''https://api.example.org'', NODE_ENV = Some EnvName_PRODUCTION\<rparr>) \<and>
   NODE_ENV (process_env development) = Some ''development'' \<and>
   fst (api (answering_while_going_live 200 (JObj [(''name'', JStr '''')])) getRepository production) =
     Inr (invocation (answering_while_going_live 200 (JObj [(''name'', JStr '''')])) getRepository) \<and>
   map baseURL (requests (snd (invocation (answering_while_going_live 200 (JObj [(''name'', JStr '''')]))
                                 getRepository JUndefined development))) =
     [Some ''https://api.example.org''] \<and>
   fst (invocation (answering_while_going_live 200 (JObj [(''name'', JStr '''')]))
          getRepository JUndefined development) =
     Returns (Resolved (JObj [(''name'', JStr '''')]))"
proof -
  have h1: "parse (requestSchema getRepository) JUndefined = Inr JUndefined"
    by (simp add: concrete_defs)
  have h2: "answering_while_going_live 200 (JObj [(''name'', JStr '''')])
     (requestConfig getRepository JUndefined (process_env development)) (process_env development) =
     (Reply 200 (JObj [(''name'', JStr '''')]),
      \<lparr>API_URL = Some ''https://api.example.org'', NODE_ENV = Some EnvName_PRODUCTION\<rparr>)"
    by (simp add: answering_while_going_live_def development_def)
  have h3: "process_env development =
      \<lparr>API_URL = Some ''https://api.example.org'', NODE_ENV = Some ''development''\<rparr>"
    and h4: "requests development = []"
    by (simp_all add: development_def)
  show ?thesis
    using h1 h2 h3 h4
      configuration_read_at_time_of_use [where d = getRepository and requestData = JUndefined
        and v = JUndefined and net = "answering_while_going_live 200 (JObj [(''name'', JStr '''')])"
        and w = development and s = 200 and body = "JObj [(''name'', JStr '''')]"
        and env' = "\<lparr>API_URL = Some ''https://api.example.org'', NODE_ENV = Some EnvName_PRODUCTION\<rparr>"
        and ?w0.0 = production]
    by simp
qed

end
